theory Spec2Isabelle
  imports Complex_Main "HOL-Library.Word"
begin

unbundle bit_operations_syntax

section \<open>Values, commands and hub-visible effects\<close>

text \<open>
  The two device classes of the plugin (the local lightbulb and the humidifier) are
  JavaScript classes whose fields are the per-device state. A handler is modelled as a
  function from the state before to the state after, together with what it returns to
  the hub. Everything a handler does to the outside world is recorded in the state:
  the commands handed to the platform's send function (\<open>sent\<close>), the log lines
  (\<open>logs\<close>), the calls of \<open>updateCharacteristic\<close> (\<open>hubUpdates\<close>, with the resulting
  characteristic store \<open>hubValue\<close>) and the timers installed with \<open>setTimeout\<close>
  (\<open>timers\<close>, delay in milliseconds and callback).
\<close>

text \<open>
  JavaScript values as far as the caches hold them; \<open>===\<close> is equality of this type.
  The numbers exchanged with the hub and the device (percentages, mired, modes) are
  integers.
\<close>

datatype jsval = JUndefined | JBool bool | JNum int | JStr string

datatype hapChar = On | Brightness | Hue | Saturation | ColorTemperature | RotationSpeed

datatype payload =
    Togglex int nat
  | LightLuminance int "int option"
  | LightRgb int int int
  | LightTemperature int int
  | Spray int nat

datatype command = Command string payload

datatype js_error = Error string | TypeError | TimeoutError

datatype hap_error = HapStatusError int

text \<open>
  A log line keeps its format string; the values formatted into it come from helpers that
  are not part of these sources (\<open>funcs.parseError\<close>, \<open>lang\<close>) and are left out.
\<close>

datatype log_entry = Info string | Warn string

text \<open>
  What the awaited send does for the handler that waits for it. It throws, or it returns
  a response, or (\<open>TimesOut\<close>) it has not settled when the queue's timeout of 10 s
  rejects the task with \<open>TimeoutError\<close>. The queue does not cancel a task it has timed
  out: the task goes on waiting, and the rest of its body runs when the send settles.
  That rest is given for each handler as a function of its own (\<open>late...\<close>).
\<close>

datatype 'r outcome = Throws js_error | Returns 'r | TimesOut

record 'cb device =
  enableLogging :: bool
  enableDebugLogging :: bool
  updateInProgress :: bool
  sent :: "command list"
  logs :: "log_entry list"
  hubValue :: "hapChar \<Rightarrow> jsval"
  hubUpdates :: "(hapChar \<times> jsval) list"
  timers :: "(nat \<times> 'cb) list"

definition send :: "command \<Rightarrow> ('cb, 'z) device_scheme \<Rightarrow> ('cb, 'z) device_scheme" where
  "send c s = s\<lparr>sent := sent s @ [c]\<rparr>"

definition log_info :: "string \<Rightarrow> ('cb, 'z) device_scheme \<Rightarrow> ('cb, 'z) device_scheme" where
  "log_info l s = s\<lparr>logs := logs s @ [Info l]\<rparr>"

definition log_warn :: "string \<Rightarrow> ('cb, 'z) device_scheme \<Rightarrow> ('cb, 'z) device_scheme" where
  "log_warn l s = s\<lparr>logs := logs s @ [Warn l]\<rparr>"

definition updateCharacteristic ::
  "hapChar \<Rightarrow> jsval \<Rightarrow> ('cb, 'z) device_scheme \<Rightarrow> ('cb, 'z) device_scheme" where
  "updateCharacteristic c v s =
     s\<lparr>hubValue := (hubValue s)(c := v), hubUpdates := hubUpdates s @ [(c, v)]\<rparr>"

definition setTimeout :: "'cb \<Rightarrow> nat \<Rightarrow> ('cb, 'z) device_scheme \<Rightarrow> ('cb, 'z) device_scheme" where
  "setTimeout cb ms s = s\<lparr>timers := timers s @ [(ms, cb)]\<rparr>"

text \<open>
  The \<open>catch\<close> block every write handler ends with: warn, install the 2000 ms timer that
  pushes the cache back to the hub, throw \<open>HapStatusError(-70402)\<close>.
\<close>

definition catchWrite ::
  "'cb \<Rightarrow> string \<Rightarrow> ('cb, 'z) device_scheme \<Rightarrow> (hap_error + unit) \<times> ('cb, 'z) device_scheme" where
  "catchWrite cb l s = (Inl (HapStatusError (- 70402)), setTimeout cb 2000 (log_warn l s))"

section \<open>Unit conversions\<close>

text \<open>
  \<open>Math.round\<close>: the nearest integer, a tie going up. The intermediate values of the
  two temperature conversions are real numbers here.
\<close>

definition js_round :: "real \<Rightarrow> int" where
  "js_round x = \<lfloor>x + 1 / 2\<rfloor>"

text \<open>
  \<open>internalCTUpdate\<close>, "Convert kelvin to Meross value": the four assignments to
  \<open>merossTemp\<close> and the coercion of 0 to 1.
\<close>

definition mired2deviceTemp :: "int \<Rightarrow> int" where
  "mired2deviceTemp value =
     (let t0 = real_of_int value - 140;
          t1 = 360 - t0;
          t2 = t1 / 360;
          t3 = js_round (t2 * 100)
      in if t3 = 0 then 1 else t3)"

text \<open>\<open>requestDeviceUpdate\<close>, the \<open>temperature\<close> branch: device value to mired.\<close>

definition deviceTemp2mired :: "int \<Rightarrow> int" where
  "deviceTemp2mired temperature =
     (let t0 = (real_of_int temperature / 100) * 360;
          t1 = 360 - t0;
          t2 = t1 + 140
      in js_round t2)"

text \<open>
  The bitwise operators of JavaScript work on the operands converted to 32-bit signed
  integers and give a 32-bit signed result.
\<close>

definition js_shl :: "int \<Rightarrow> nat \<Rightarrow> int" where
  "js_shl a n = sint (push_bit n (word_of_int a :: 32 word))"

definition js_and :: "int \<Rightarrow> int \<Rightarrow> int" where
  "js_and a b = sint ((word_of_int a :: 32 word) AND word_of_int b)"

definition js_sar :: "int \<Rightarrow> nat \<Rightarrow> int" where
  "js_sar a n = sint (signed_drop_bit n (word_of_int a :: 32 word))"

text \<open>\<open>internalColourUpdate\<close>: \<open>(r << 16) + (g << 8) + b\<close>.\<close>

definition pack_rgb :: "int \<Rightarrow> int \<Rightarrow> int \<Rightarrow> int" where
  "pack_rgb r g b = js_shl r 16 + js_shl g 8 + b"

text \<open>\<open>requestDeviceUpdate\<close>: the three masks and shifts applied to \<open>newRGB\<close>.\<close>

definition unpack_rgb :: "int \<Rightarrow> int \<times> int \<times> int" where
  "unpack_rgb newRGB =
     (js_sar (js_and newRGB 0xff0000) 16, js_sar (js_and newRGB 0x00ff00) 8,
      js_and newRGB 0x0000ff)"

text \<open>The humidifier's speed maps, as the constructor defines them.\<close>

definition hk2mr :: "int \<Rightarrow> int" where
  "hk2mr speed = (if speed = 0 then 0 else if speed \<le> 75 then 2 else 1)"

definition hk2Label :: "int \<Rightarrow> string" where
  "hk2Label speed =
     (if speed = 0 then ''off'' else if speed \<le> 75 then ''intermittent'' else ''continuous'')"

definition mr2hk :: "int \<Rightarrow> int" where
  "mr2hk speed = (if speed = 0 then 0 else if speed = 1 then 100 else 50)"

section \<open>The humidifier\<close>

datatype hum_cb = RevertFanOn | RevertRotationSpeed

record humidifier = "hum_cb device" +
  cacheFanState :: bool
  cacheFanSpeed :: int


text \<open>
  \<open>internalFanStateUpdate\<close>. The task given to the queue runs from the no-op check to
  the log line; \<open>out\<close> is what \<open>platform.sendUpdate\<close> does. The humidifier's handlers
  do not look into the response: for them a write fails when the send throws or the
  queue times the task out. \<open>commitFanState\<close> is the part of the task after the send
  ("Update the cache and log the update has been successful").
\<close>

definition commitFanState :: "bool \<Rightarrow> humidifier \<Rightarrow> humidifier" where
  "commitFanState value s =
     (let s3 = s\<lparr>cacheFanState := value\<rparr>
      in if enableLogging s3 then log_info ''[%s] current state [%s].'' s3 else s3)"

definition internalFanStateUpdate ::
  "bool \<Rightarrow> unit outcome \<Rightarrow> humidifier \<Rightarrow> (hap_error + unit) \<times> humidifier" where
  "internalFanStateUpdate value out s =
     (if value = cacheFanState s then (Inr (), s)
      else
        let s1 = s\<lparr>updateInProgress := True\<rparr>;
            payload = Spray (if value then max (cacheFanSpeed s1) 1 else 0) 0;
            s2 = send (Command ''Appliance.Control.Spray'' payload) s1
        in case out of
             Throws err \<Rightarrow> catchWrite RevertFanOn ''[%s] %s %s.'' s2
           | TimesOut \<Rightarrow> catchWrite RevertFanOn ''[%s] %s %s.'' s2
           | Returns _ \<Rightarrow> (Inr (), commitFanState value s2))"


text \<open>\<open>internalFanSpeedUpdate\<close>: the quantisation of the argument comes first.\<close>

definition quantise :: "int \<Rightarrow> int" where
  "quantise value = (if value = 0 then 0 else if value \<le> 75 then 50 else 100)"

text \<open>
  The part of the fan-speed task after the send: a write of 0 installs the timer that
  sets the rotation speed back, any other write stores the mode and logs.
\<close>

definition commitFanSpeed :: "int \<Rightarrow> int \<Rightarrow> humidifier \<Rightarrow> humidifier" where
  "commitFanSpeed value mrVal s =
     (if value = 0 then setTimeout RevertRotationSpeed 2000 s
      else
        let s3 = s\<lparr>cacheFanSpeed := mrVal\<rparr>
        in if enableLogging s3 then log_info ''[%s] current spray [%s].'' s3 else s3)"

definition internalFanSpeedUpdate ::
  "int \<Rightarrow> unit outcome \<Rightarrow> humidifier \<Rightarrow> (hap_error + unit) \<times> humidifier" where
  "internalFanSpeedUpdate value0 out s =
     (let value = quantise value0;
          mrVal = hk2mr value
      in if mrVal = cacheFanSpeed s then (Inr (), s)
         else
           let s1 = s\<lparr>updateInProgress := True\<rparr>;
               s2 = send (Command ''Appliance.Control.Spray'' (Spray mrVal 0)) s1
           in case out of
                Throws err \<Rightarrow> catchWrite RevertRotationSpeed ''[%s] %s %s.'' s2
              | TimesOut \<Rightarrow> catchWrite RevertRotationSpeed ''[%s] %s %s.'' s2
              | Returns _ \<Rightarrow> (Inr (), commitFanSpeed value mrVal s2))"


text \<open>
  \<open>applyUpdate\<close>: the digest of a poll or a push. \<open>spray\<close> is the optional array of
  channel entries, an entry being its optional \<open>mode\<close> property.
\<close>

record hum_digest =
  spray :: "int option list option"
  light_present :: bool

definition applyUpdate :: "hum_digest \<Rightarrow> humidifier \<Rightarrow> humidifier" where
  "applyUpdate data s =
     (case spray data of
        Some (Some newSpeed # _) \<Rightarrow>
          if cacheFanSpeed s \<noteq> newSpeed then
            let s1 = s\<lparr>cacheFanSpeed := newSpeed\<rparr>
            in if cacheFanSpeed s1 = 0 then
                 let s2 = updateCharacteristic On (JBool False) (s1\<lparr>cacheFanState := False\<rparr>)
                 in if enableLogging s2 then log_info ''[%s] current state [off].'' s2 else s2
               else
                 let s2 =
                       (if \<not> cacheFanState s1 then
                          let s1a = updateCharacteristic On (JBool True)
                                      (s1\<lparr>cacheFanState := True\<rparr>)
                          in if enableLogging s1a
                             then log_info ''[%s] current state [on].'' s1a else s1a
                        else s1);
                     hkValue = mr2hk (cacheFanSpeed s2);
                     s3 = updateCharacteristic RotationSpeed (JNum hkValue) s2
                 in if enableLogging s3 then log_info ''[%s] current spray [%s].'' s3 else s3
          else s
      | _ \<Rightarrow> s)"

text \<open>
  \<open>receiveUpdate\<close>: a push is merged by \<open>applyUpdate\<close> when it carries \<open>spray\<close> or
  \<open>light\<close>. An empty \<open>spray\<close> array is truthy in JavaScript.
\<close>

definition receiveUpdate :: "hum_digest \<Rightarrow> humidifier \<Rightarrow> humidifier" where
  "receiveUpdate params s =
     (let s1 = (if enableDebugLogging s then log_info ''[%s] %s: %s.'' s else s)
      in if spray params \<noteq> None \<or> light_present params then applyUpdate params s1 else s1)"

text \<open>
  The scheduling part of the humidifier's constructor: the poll interval chosen from the
  connection and the configuration, the startup poll and the interval timer. The
  defaults (\<open>platform.consts.defaultValues\<close>) are parameters.
\<close>

record config =
  refreshRate :: "int option"
  cloudRefreshRate :: "int option"

text \<open>
  What a constructor schedules: the lightbulb's poll, the humidifier's poll with its
  \<open>firstRun\<close> argument, and \<open>setInterval\<close> of the poll with a period in milliseconds.
\<close>

datatype sched = RequestDeviceUpdate | RequestUpdate bool | SetInterval int

definition humidifierPollInterval :: "string \<Rightarrow> config \<Rightarrow> int \<Rightarrow> int \<Rightarrow> int" where
  "humidifierPollInterval connection cfg defaultCloud defaultLocal =
     (if connection \<noteq> ''local''
      then (case cloudRefreshRate cfg of Some r \<Rightarrow> r | None \<Rightarrow> defaultCloud)
      else (case refreshRate cfg of Some r \<Rightarrow> r | None \<Rightarrow> defaultLocal))"

definition humidifierStartup :: "string \<Rightarrow> config \<Rightarrow> int \<Rightarrow> int \<Rightarrow> sched list" where
  "humidifierStartup connection cfg defaultCloud defaultLocal =
     [RequestUpdate True,
      SetInterval (humidifierPollInterval connection cfg defaultCloud defaultLocal * 1000)]"

text \<open>
  The same part of the lightbulb's constructor; \<open>platform.config.refreshRate\<close> is read
  directly there.
\<close>

definition lightbulbStartup :: "int \<Rightarrow> sched list" where
  "lightbulbStartup rate =
     RequestDeviceUpdate # (if rate > 0 then [SetInterval (rate * 1000)] else [])"

section \<open>The lightbulb\<close>

datatype bulb_cb = RevertOn | RevertBrightness | RevertHue | RevertColorTemperature

text \<open>
  The status digest of a poll. \<open>toggle\<close> is the optional object with its optional
  \<open>onoff\<close>; \<open>togglex\<close> the optional array of channel entries, an entry being its
  optional \<open>onoff\<close>; \<open>light\<close> the optional object with three optional properties.
\<close>

record light_digest =
  luminance :: "int option"
  rgb :: "int option"
  temperature :: "int option"

record digest =
  toggle :: "int option option"
  togglex :: "int option list option"
  light :: "light_digest option"

text \<open>
  \<open>cacheState\<close> is a \<open>jsval\<close>: the class stores booleans in it, a number on one path,
  and compares it with a string on another. \<open>deviceStatus\<close> is a field the class reads
  but never assigns.
\<close>

record bulb = "bulb_cb device" +
  model :: string
  channel :: nat
  cacheState :: jsval
  cacheBright :: int
  cacheHue :: int
  cacheSat :: jsval
  cacheMired :: int
  updateKeyBright :: "string option"
  updateKeyColour :: "string option"
  updateKeyCT :: "string option"
  alController :: "bool option"
  deviceStatus :: "digest option"

definition colourModels :: "string list" where
  "colourModels = [''MSL100'', ''MSL420'', ''MSL120'', ''MSL320'']"

fun fireBulb :: "bulb_cb \<Rightarrow> bulb \<Rightarrow> bulb" where
  "fireBulb RevertOn s = updateCharacteristic On (cacheState s) s"
| "fireBulb RevertBrightness s = updateCharacteristic Brightness (JNum (cacheBright s)) s"
| "fireBulb RevertHue s = updateCharacteristic Hue (JNum (cacheHue s)) s"
| "fireBulb RevertColorTemperature s =
     updateCharacteristic ColorTemperature (JNum (cacheMired s)) s"

text \<open>
  The response of \<open>sendLocalDeviceUpdate\<close>: \<open>res.data\<close> is optional; in it the header
  (given by its \<open>method\<close>) and the payload (given by its serialised \<open>error\<close>) are
  optional.
\<close>

record res_data =
  header_method :: "string option option"
  payload_error :: "string option"

text \<open>
  The response check of the four lightbulb handlers. Building the message of the error
  reads \<open>res.data.payload.error\<close>, which raises \<open>TypeError\<close> when \<open>res.data\<close> or the
  payload is missing; either way the task throws. For a task that the queue times out
  the error that reaches the handler's \<open>catch\<close> is the queue's \<open>TimeoutError\<close>.
\<close>

definition checkResponse :: "res_data option outcome \<Rightarrow> js_error + unit" where
  "checkResponse out =
     (case out of
        Throws err \<Rightarrow> Inl err
      | TimesOut \<Rightarrow> Inl TimeoutError
      | Returns None \<Rightarrow> Inl TypeError
      | Returns (Some d) \<Rightarrow>
          if header_method d = None \<or> header_method d = Some (Some ''ERROR'')
          then (case payload_error d of
                  None \<Rightarrow> Inl TypeError
                | Some e \<Rightarrow> Inl (Error (''request failed - '' @ e)))
          else Inr ())"

text \<open>
  What a debounced handler needs from outside: the random token, whatever else runs on
  the event loop while the task sleeps for 300 ms, and the response to the command.
\<close>

record env =
  token :: string
  during :: "bulb \<Rightarrow> bulb"
  response :: "res_data option outcome"

text \<open>
  \<open>internalStateUpdate\<close>; \<open>commitState\<close> is the part of its task after the response
  check, and \<open>lateStateUpdate\<close> what its timed-out task does when the send settles at
  last: the check and, if the response passes, that part.
\<close>

definition commitState :: "bool \<Rightarrow> bulb \<Rightarrow> bulb" where
  "commitState value s =
     (let s4 = s\<lparr>cacheState := JBool value\<rparr>
      in if enableLogging s4 then log_info ''[%s] current state [%s].'' s4 else s4)"

definition internalStateUpdate ::
  "bool \<Rightarrow> res_data option outcome \<Rightarrow> bulb \<Rightarrow> (hap_error + unit) \<times> bulb" where
  "internalStateUpdate value out s =
     (if JBool value = cacheState s then (Inr (), s)
      else
        let s1 = s\<lparr>updateInProgress := True\<rparr>;
            s2 = (if enableDebugLogging s1
                  then log_info ''[%s] sending request for state [%s].'' s1 else s1);
            payload = Togglex (if value then 1 else 0) (channel s2);
            s3 = send (Command ''Appliance.Control.ToggleX'' payload) s2
        in case checkResponse out of
             Inl err \<Rightarrow> catchWrite RevertOn ''[%s] sending update failed as %s.'' s3
           | Inr _ \<Rightarrow> (Inr (), commitState value s3))"


text \<open>
  \<open>internalBrightnessUpdate\<close>, in parts: the part after the response check, the part
  from the flag to the log line, the whole task with the no-op check and the token check
  before it, and the timed-out task when its send settles at last.
\<close>

definition commitBrightness :: "int \<Rightarrow> bulb \<Rightarrow> bulb" where
  "commitBrightness value s =
     (let s4 = s\<lparr>cacheBright := value\<rparr>
      in if enableLogging s4 then log_info ''[%s] current brightness [%s%].'' s4 else s4)"

definition sendBrightness ::
  "int \<Rightarrow> res_data option outcome \<Rightarrow> bulb \<Rightarrow> (hap_error + unit) \<times> bulb" where
  "sendBrightness value out s =
     (let s1 = s\<lparr>updateInProgress := True\<rparr>;
          s2 = (if enableDebugLogging s1
                then log_info ''[%s] sending request for brightness [%s%].'' s1 else s1);
          payload = (if model s2 \<in> set colourModels
                     then LightLuminance value (Some 4) else LightLuminance value None);
          s3 = send (Command ''Appliance.Control.Light'' payload) s2
      in case checkResponse out of
           Inl err \<Rightarrow> catchWrite RevertBrightness ''[%s] sending update failed as %s.'' s3
         | Inr _ \<Rightarrow> (Inr (), commitBrightness value s3))"


definition internalBrightnessUpdate ::
  "int \<Rightarrow> env \<Rightarrow> bulb \<Rightarrow> (hap_error + unit) \<times> bulb" where
  "internalBrightnessUpdate value e s =
     (if cacheBright s = value then (Inr (), s)
      else
        let updateKey = token e;
            s0 = during e (s\<lparr>updateKeyBright := Some updateKey\<rparr>)
        in if Some updateKey \<noteq> updateKeyBright s0 then (Inr (), s0)
           else sendBrightness value (response e) s0)"

text \<open>
  \<open>internalColourUpdate\<close>, in the same parts. \<open>colourUtils.hs2rgb\<close> is not part of
  these sources and is a parameter; the saturation is read from the hub's
  characteristic, before the send and again after the response check.
\<close>

definition commitColour :: "int \<Rightarrow> bulb \<Rightarrow> bulb" where
  "commitColour value s =
     (let s4 = s\<lparr>cacheHue := value, cacheSat := hubValue s Saturation\<rparr>
      in if enableLogging s4
         then log_info ''[%s] current hue/sat [%s/%s] rgb [%s, %s, %s].'' s4 else s4)"

definition sendColour ::
  "(int \<Rightarrow> jsval \<Rightarrow> int \<times> int \<times> int) \<Rightarrow> int \<Rightarrow> res_data option outcome \<Rightarrow> bulb
     \<Rightarrow> (hap_error + unit) \<times> bulb" where
  "sendColour hs2rgb value out s =
     (let s1 = s\<lparr>updateInProgress := True\<rparr>;
          s2 = (if enableDebugLogging s1
                then log_info ''[%s] sending request for hue [%s].'' s1 else s1);
          saturation = hubValue s2 Saturation;
          (r, g, b) = hs2rgb value saturation;
          rgbD = pack_rgb r g b;
          payload = LightRgb rgbD 1 (cacheBright s2);
          s3 = send (Command ''Appliance.Control.Light'' payload) s2
      in case checkResponse out of
           Inl err \<Rightarrow> catchWrite RevertHue ''[%s] sending update failed as %s.'' s3
         | Inr _ \<Rightarrow> (Inr (), commitColour value s3))"


definition internalColourUpdate ::
  "(int \<Rightarrow> jsval \<Rightarrow> int \<times> int \<times> int) \<Rightarrow> int \<Rightarrow> env \<Rightarrow> bulb
     \<Rightarrow> (hap_error + unit) \<times> bulb" where
  "internalColourUpdate hs2rgb value e s =
     (if cacheHue s = value then (Inr (), s)
      else
        let updateKey = token e;
            s0 = during e (s\<lparr>updateKeyColour := Some updateKey\<rparr>)
        in if Some updateKey \<noteq> updateKeyColour s0 then (Inr (), s0)
           else sendColour hs2rgb value (response e) s0)"

text \<open>
  \<open>internalCTUpdate\<close>. After the flag is set the task compares \<open>cacheState\<close> with the
  string \<open>'on'\<close> and the cache with the value once more.
\<close>

definition sendCT ::
  "int \<Rightarrow> res_data option outcome \<Rightarrow> bulb \<Rightarrow> (hap_error + unit) \<times> bulb" where
  "sendCT value out s =
     (let s1 = s\<lparr>updateInProgress := True\<rparr>
      in if cacheState s1 \<noteq> JStr ''on'' \<or> cacheMired s1 = value then (Inr (), s1)
         else
           let s2 = (if enableDebugLogging s1
                     then log_info ''[%s] sending request for mired [%s].'' s1 else s1);
               merossTemp = mired2deviceTemp value;
               payload = LightTemperature merossTemp 2;
               s3 = send (Command ''Appliance.Control.Light'' payload) s2
           in case checkResponse out of
                Inl err \<Rightarrow>
                  catchWrite RevertColorTemperature ''[%s] sending update failed as %s.'' s3
              | Inr _ \<Rightarrow>
                  let s4 = s3\<lparr>cacheMired := value\<rparr>
                  in (Inr (),
                      if enableLogging s4
                      then log_info ''[%s] current mired/kelvin [%s/%s]%s.'' s4 else s4))"

definition internalCTUpdate ::
  "int \<Rightarrow> env \<Rightarrow> bulb \<Rightarrow> (hap_error + unit) \<times> bulb" where
  "internalCTUpdate value e s =
     (if cacheMired s = value then (Inr (), s)
      else
        let updateKey = token e;
            s0 = during e (s\<lparr>updateKeyCT := Some updateKey\<rparr>)
        in if Some updateKey \<noteq> updateKeyCT s0 then (Inr (), s0)
           else sendCT value (response e) s0)"

text \<open>
  \<open>requestDeviceUpdate\<close>, field by field. The power field: \<open>onoff\<close> is turned into a
  boolean and compared with \<open>cacheState\<close>.
\<close>

definition mergeState :: "int \<Rightarrow> bulb \<Rightarrow> bulb" where
  "mergeState onoff s =
     (let newState = JBool (onoff = 1)
      in if cacheState s \<noteq> newState then
           let s1 = updateCharacteristic On newState s;
               s2 = s1\<lparr>cacheState := newState\<rparr>
           in if enableLogging s2 then log_info ''[%s] current state [%s].'' s2 else s2
         else s)"

text \<open>
  The brightness field: the source compares \<open>newBright\<close> with \<open>this.cacheState\<close> and
  assigns it to \<open>this.cacheState\<close>.
\<close>

definition mergeLuminance :: "int \<Rightarrow> bulb \<Rightarrow> bulb" where
  "mergeLuminance newBright s =
     (if cacheState s \<noteq> JNum newBright then
        let s1 = updateCharacteristic Brightness (JNum newBright) s;
            s2 = s1\<lparr>cacheState := JNum newBright\<rparr>
        in if enableLogging s2 then log_info ''[%s] current brightness [%s%].'' s2 else s2
      else s)"

text \<open>
  The colour field: the value is read from \<open>this.deviceStatus\<close>, not from the response.
  Reading through an absent \<open>deviceStatus\<close> or an absent \<open>light\<close> raises \<open>TypeError\<close>;
  an absent \<open>rgb\<close> is \<open>undefined\<close>, which the bitwise operators take as 0.
  \<open>colourUtils.rgb2hs\<close> is a parameter.
\<close>

definition mergeRgb :: "(int \<Rightarrow> int \<Rightarrow> int \<Rightarrow> int \<times> int) \<Rightarrow> bulb \<Rightarrow> js_error + bulb" where
  "mergeRgb rgb2hs s =
     (case deviceStatus s of
        None \<Rightarrow> Inl TypeError
      | Some ds \<Rightarrow>
          (case light ds of
             None \<Rightarrow> Inl TypeError
           | Some l \<Rightarrow>
               let newRGB = (case rgb l of None \<Rightarrow> 0 | Some n \<Rightarrow> n);
                   (r, g, b) = unpack_rgb newRGB;
                   (newHue, newSat) = rgb2hs r g b;
                   s1 = (if cacheHue s \<noteq> newHue \<or> cacheSat s \<noteq> JNum newSat then
                           let u1 = updateCharacteristic Hue (JNum newHue) s;
                               u2 = updateCharacteristic Saturation (JNum newSat) u1;
                               u3 = u2\<lparr>cacheHue := newHue, cacheSat := JNum newSat\<rparr>
                           in if enableLogging u3
                              then log_info
                                     ''[%s] current hue/sat [%s/%s] rgb [%s, %s, %s].'' u3
                              else u3
                         else s);
                   s2 = (if alController s1 = Some True then
                           let a1 = s1\<lparr>alController := Some False\<rparr>
                           in if enableLogging a1
                              then log_info
                                     ''[%s] adaptive lighting disabled as RGB colour chosen.'' a1
                              else a1
                         else s1)
               in Inr s2))"

definition mergeTemperature :: "int \<Rightarrow> bulb \<Rightarrow> bulb" where
  "mergeTemperature temp s =
     (let merossTemp = deviceTemp2mired temp
      in if cacheMired s \<noteq> merossTemp then
           let dif = \<bar>cacheMired s - merossTemp\<bar>;
               s1 = updateCharacteristic ColorTemperature (JNum merossTemp) s;
               s2 = s1\<lparr>cacheMired := merossTemp\<rparr>;
               s3 = (if enableLogging s2
                     then log_info ''[%s] current mired/kelvin [%s/%s].'' s2 else s2)
           in if dif > 10 \<and> alController s3 = Some True then
                let s4 = s3\<lparr>alController := Some False\<rparr>
                in if enableLogging s4
                   then log_info ''[%s] adaptive lighting disabled due to change of mired.'' s4
                   else s4
              else s3
         else s)"

text \<open>
  The merge of a digest. An exception leaves the fields merged before it in place and is
  returned with the state reached. \<open>funcs.hasProperty\<close> is not part of these sources; on
  an absent object it is taken to raise, as \<open>Object.prototype.hasOwnProperty.call\<close> does.
\<close>

definition mergeDigest ::
  "(int \<Rightarrow> int \<Rightarrow> int \<Rightarrow> int \<times> int) \<Rightarrow> digest \<Rightarrow> bulb \<Rightarrow> js_error option \<times> bulb" where
  "mergeDigest rgb2hs dg s =
     (if model s = ''MSS1101'' then
        (case toggle dg of
           None \<Rightarrow> (Some TypeError, s)
         | Some None \<Rightarrow> (None, s)
         | Some (Some onoff) \<Rightarrow> (None, mergeState onoff s))
      else
        let p = (case togglex dg of
                   None \<Rightarrow> (None, s)
                 | Some xs \<Rightarrow>
                     if channel s < length xs then
                       (case xs ! channel s of
                          None \<Rightarrow> (None, s)
                        | Some onoff \<Rightarrow> (None, mergeState onoff s))
                     else (Some TypeError, s))
        in case p of
             (Some err, s1) \<Rightarrow> (Some err, s1)
           | (None, s1) \<Rightarrow>
               (case light dg of
                  None \<Rightarrow> (None, s1)
                | Some l \<Rightarrow>
                    let s2 = (case luminance l of
                                None \<Rightarrow> s1
                              | Some newBright \<Rightarrow> mergeLuminance newBright s1)
                    in case (case rgb l of None \<Rightarrow> Inr s2 | Some _ \<Rightarrow> mergeRgb rgb2hs s2) of
                         Inl err \<Rightarrow> (Some err, s2)
                       | Inr s3 \<Rightarrow>
                           (None,
                            case temperature l of
                              None \<Rightarrow> s3
                            | Some temp \<Rightarrow> mergeTemperature temp s3)))"

text \<open>
  \<open>requestDeviceUpdate\<close>: skipped while an update is in progress; \<open>out\<close> is what
  \<open>requestLocalDeviceUpdate\<close> does, a response being the digest found under
  \<open>data.payload.all.digest\<close>, if any.
\<close>

definition requestDeviceUpdate ::
  "(int \<Rightarrow> int \<Rightarrow> int \<Rightarrow> int \<times> int) \<Rightarrow> digest option outcome \<Rightarrow> bulb \<Rightarrow> bulb" where
  "requestDeviceUpdate rgb2hs out s =
     (if updateInProgress s then s
      else
        case out of
          Throws err \<Rightarrow> log_warn ''[%s] failed to refresh status as %s.'' s
        | Returns d \<Rightarrow>
            let s1 = (if enableDebugLogging s
                      then log_info ''[%s] incoming poll message %s.'' s else s)
            in case d of
                 None \<Rightarrow> s1
               | Some dg \<Rightarrow>
                   (case mergeDigest rgb2hs dg s1 of
                      (None, s2) \<Rightarrow> s2
                    | (Some err, s2) \<Rightarrow>
                        log_warn ''[%s] failed to refresh status as %s.'' s2))"

text \<open>
  The queue runs one task at a time, in the order of submission. A burst of fan-speed
  writes that the device accepts is the handler run on each value in turn.
\<close>

fun fanSpeedBurst :: "int list \<Rightarrow> humidifier \<Rightarrow> humidifier" where
  "fanSpeedBurst [] s = s"
| "fanSpeedBurst (v # vs) s = fanSpeedBurst vs (snd (internalFanSpeedUpdate v (Returns ()) s))"

definition sprayCommand :: "int \<Rightarrow> command" where
  "sprayCommand v = Command ''Appliance.Control.Spray'' (Spray (hk2mr (quantise v)) 0)"

section \<open>Concrete devices\<close>

definition device0 :: "'cb device" where
  "device0 =
     \<lparr>enableLogging = True, enableDebugLogging = False, updateInProgress = False,
      sent = [], logs = [], hubValue = (\<lambda>_. JUndefined), hubUpdates = [], timers = []\<rparr>"

text \<open>A humidifier that is on in continuous mode, the hub showing a requested speed of 60.\<close>

definition hum60 :: humidifier where
  "hum60 =
     device.extend
       (device0\<lparr>hubValue := (\<lambda>_. JUndefined)(On := JBool True, RotationSpeed := JNum 60)\<rparr>)
       (humidifier.fields True 1)"

text \<open>A humidifier that is off.\<close>

definition humOff :: humidifier where
  "humOff =
     device.extend
       (device0\<lparr>hubValue := (\<lambda>_. JUndefined)(On := JBool False, RotationSpeed := JNum 0)\<rparr>)
       (humidifier.fields False 0)"

text \<open>A colour bulb that is on at brightness 50, hue 0, saturation 0 and 200 mired.\<close>

definition bulbOn :: bulb where
  "bulbOn =
     device.extend
       (device0\<lparr>hubValue := (\<lambda>_. JUndefined)
          (On := JBool True, Brightness := JNum 50, Hue := JNum 0, Saturation := JNum 0,
           ColorTemperature := JNum 200)\<rparr>)
       (bulb.fields ''MSL120'' 0 (JBool True) 50 0 (JNum 0) 200 None None None (Some False)
          None)"

definition digestOn50 :: digest where
  "digestOn50 =
     \<lparr>toggle = None, togglex = Some [Some 1],
      light = Some \<lparr>luminance = Some 50, rgb = None, temperature = None\<rparr>\<rparr>"

definition envOk :: env where
  "envOk =
     \<lparr>token = ''k3x9q2ab'', during = (\<lambda>s. s),
      response = Returns (Some \<lparr>header_method = Some (Some ''SETACK''), payload_error = None\<rparr>)\<rparr>"

text \<open>A response whose header carries the error marker.\<close>

definition respError :: "res_data option outcome" where
  "respError = Returns (Some \<lparr>header_method = Some (Some ''ERROR''), payload_error = Some ''{}''\<rparr>)"

text \<open>A humidifier that is off, its last running mode being the intermittent one.\<close>

definition humOffMode2 :: humidifier where
  "humOffMode2 =
     device.extend
       (device0\<lparr>hubValue := (\<lambda>_. JUndefined)(On := JBool False, RotationSpeed := JNum 50)\<rparr>)
       (humidifier.fields False 2)"

text \<open>
  A second write right after the first has its own token; and a write whose command is
  answered with the error response.
\<close>

definition envOk2 :: env where
  "envOk2 = envOk\<lparr>token := ''p07whz1c''\<rparr>"

definition envError :: env where
  "envError = envOk\<lparr>response := respError\<rparr>"

text \<open>One poll of the bulb that answers with \<open>digestOn50\<close>.\<close>

definition pollOn50 :: "bulb \<Rightarrow> bulb" where
  "pollOn50 = requestDeviceUpdate (\<lambda>_ _ _. (0, 0)) (Returns (Some digestOn50))"

section \<open>Properties\<close>

lemmas effects =
  send_def log_info_def log_warn_def setTimeout_def updateCharacteristic_def catchWrite_def
  commitState_def commitBrightness_def commitColour_def commitFanState_def
  commitFanSpeed_def

lemmas concrete =
  device0_def hum60_def humOff_def humOffMode2_def bulbOn_def digestOn50_def
  envOk_def envOk2_def envError_def respError_def pollOn50_def
  bulb.defs humidifier.defs device.defs

subsection \<open>Debouncing\<close>

text \<open>
  The brightness, hue and colour-temperature handlers carry a token check. A write whose
  token has been replaced when its wait ends returns without an error and does nothing
  more: the state is the one the wait ended in.
\<close>

lemma replaced_token_abandons_write:
  "cacheBright s \<noteq> v \<Longrightarrow>
     updateKeyBright (during e (s\<lparr>updateKeyBright := Some (token e)\<rparr>)) \<noteq> Some (token e) \<Longrightarrow>
     internalBrightnessUpdate v e s
       = (Inr (), during e (s\<lparr>updateKeyBright := Some (token e)\<rparr>))"
  "cacheHue s \<noteq> v \<Longrightarrow>
     updateKeyColour (during e (s\<lparr>updateKeyColour := Some (token e)\<rparr>)) \<noteq> Some (token e) \<Longrightarrow>
     internalColourUpdate hs2rgb v e s
       = (Inr (), during e (s\<lparr>updateKeyColour := Some (token e)\<rparr>))"
  "cacheMired s \<noteq> v \<Longrightarrow>
     updateKeyCT (during e (s\<lparr>updateKeyCT := Some (token e)\<rparr>)) \<noteq> Some (token e) \<Longrightarrow>
     internalCTUpdate v e s = (Inr (), during e (s\<lparr>updateKeyCT := Some (token e)\<rparr>))"
  by (auto simp: internalBrightnessUpdate_def internalColourUpdate_def internalCTUpdate_def
      Let_def)

text \<open>
  A write passes the check whenever nothing that ran during its wait replaced the token,
  and then its command is sent whatever the response will be. The token is assigned
  only inside the handler's own queue task, and the queue (concurrency 1) starts the
  task of a later write only when the task of the earlier one has ended, its wait
  included.
\<close>

lemma brightness_write_passes_gate:
  assumes "cacheBright s \<noteq> v"
    and "updateKeyBright (during e (s\<lparr>updateKeyBright := Some (token e)\<rparr>)) = Some (token e)"
  shows "internalBrightnessUpdate v e s =
           sendBrightness v (response e) (during e (s\<lparr>updateKeyBright := Some (token e)\<rparr>))"
  using assms by (simp add: internalBrightnessUpdate_def Let_def)

lemma sendBrightness_sends:
  "sent (snd (sendBrightness v out s)) =
     sent s @ [Command ''Appliance.Control.Light''
                 (if model s \<in> set colourModels then LightLuminance v (Some 4)
                  else LightLuminance v None)]"
  by (cases "checkResponse out") (simp_all add: sendBrightness_def Let_def effects)

lemma colour_write_passes_gate:
  assumes "cacheHue s \<noteq> v"
    and "updateKeyColour (during e (s\<lparr>updateKeyColour := Some (token e)\<rparr>)) = Some (token e)"
  shows "internalColourUpdate hs2rgb v e s =
           sendColour hs2rgb v (response e) (during e (s\<lparr>updateKeyColour := Some (token e)\<rparr>))"
  using assms by (simp add: internalColourUpdate_def Let_def)

lemma sendColour_sends: "length (sent (snd (sendColour hs2rgb v out s))) = Suc (length (sent s))"
  by (cases "checkResponse out")
     (simp_all add: sendColour_def Let_def effects split: prod.splits)

text \<open>
  The handlers of the power state, the fan state and the fan speed have no token and no
  wait at all. A fan-speed write other than 0 whose mode is not the cached one sends its
  command and stores the mode; two such writes in a row, 50 and then 100, to a
  humidifier that is off both send.
\<close>

lemma fanSpeed_step:
  assumes "hk2mr (quantise v) \<noteq> cacheFanSpeed s" "v \<noteq> 0"
  shows "sent (snd (internalFanSpeedUpdate v (Returns ()) s)) = sent s @ [sprayCommand v]"
    and "cacheFanSpeed (snd (internalFanSpeedUpdate v (Returns ()) s)) = hk2mr (quantise v)"
  using assms
  by (auto simp: internalFanSpeedUpdate_def commitFanSpeed_def Let_def effects
      sprayCommand_def quantise_def)

lemma fan_speed_burst_both_sent:
  "sent (fanSpeedBurst [50, 100] humOff) =
     [Command ''Appliance.Control.Spray'' (Spray 2 0),
      Command ''Appliance.Control.Spray'' (Spray 1 0)]"
  by (simp add: concrete hk2mr_def quantise_def internalFanSpeedUpdate_def commitFanSpeed_def
      Let_def effects)

text \<open>
  C1 on the code. The bulb holds brightness 50 and hue 0 and the device accepts every
  command. Two brightness writes, 10 and then 20, are submitted one right after the
  other, each with its own token; the second task runs on the state the first has
  left, and nothing else runs during either wait. Both brightness commands are sent,
  10 first. The same holds for two hue writes, 10 and then 20 (the colour conversion
  is a stand-in that gives pure red).
\<close>

theorem rapid_writes_are_both_sent:
  "sent (snd (internalBrightnessUpdate 20 envOk2 (snd (internalBrightnessUpdate 10 envOk bulbOn))))
     = [Command ''Appliance.Control.Light'' (LightLuminance 10 (Some 4)),
        Command ''Appliance.Control.Light'' (LightLuminance 20 (Some 4))]
   \<and> sent (snd (internalColourUpdate (\<lambda>_ _. (255, 0, 0)) 20 envOk2
                  (snd (internalColourUpdate (\<lambda>_ _. (255, 0, 0)) 10 envOk bulbOn))))
     = [Command ''Appliance.Control.Light'' (LightRgb (pack_rgb 255 0 0) 1 50),
        Command ''Appliance.Control.Light'' (LightRgb (pack_rgb 255 0 0) 1 50)]
   \<and> cacheHue (snd (internalColourUpdate (\<lambda>_ _. (255, 0, 0)) 10 envOk bulbOn)) = 10"
  by (simp add: concrete internalBrightnessUpdate_def sendBrightness_def commitBrightness_def
      internalColourUpdate_def sendColour_def commitColour_def checkResponse_def
      colourModels_def Let_def effects)

subsection \<open>The no-op check\<close>

text \<open>
  C2. A write whose target equals the cached value returns at once and leaves the whole
  device state as it was: no command, no log line, no hub update, no timer, no cache
  change. For the fan speed the cache holds the device mode, so the comparison is
  between the mode of the quantised target and the cached mode; a target equal to the
  percentage of a cached mode 0, 1 or 2 is such a write.
\<close>

theorem write_equal_to_cache_is_noop:
  "(JBool b = cacheState s \<longrightarrow> internalStateUpdate b out s = (Inr (), s))
   \<and> (cacheBright s = n \<longrightarrow> internalBrightnessUpdate n e s = (Inr (), s))
   \<and> (cacheHue s = h \<longrightarrow> internalColourUpdate hs2rgb h e s = (Inr (), s))
   \<and> (cacheMired s = m \<longrightarrow> internalCTUpdate m e s = (Inr (), s))
   \<and> (f = cacheFanState t \<longrightarrow> internalFanStateUpdate f o1 t = (Inr (), t))
   \<and> (hk2mr (quantise v) = cacheFanSpeed t \<longrightarrow>
        internalFanSpeedUpdate v o2 t = (Inr (), t))
   \<and> (cacheFanSpeed t \<in> {0, 1, 2} \<longrightarrow>
        internalFanSpeedUpdate (mr2hk (cacheFanSpeed t)) o2 t = (Inr (), t))"
  by (auto simp: internalStateUpdate_def internalBrightnessUpdate_def internalColourUpdate_def
      internalCTUpdate_def internalFanStateUpdate_def internalFanSpeedUpdate_def Let_def
      mr2hk_def hk2mr_def quantise_def)

text \<open>C2 at a bulb that is on and a humidifier in continuous mode.\<close>

theorem write_equal_to_cache_is_noop_witness:
  "JBool True = cacheState bulbOn \<and> cacheBright bulbOn = 50 \<and> cacheHue bulbOn = 0
   \<and> cacheMired bulbOn = 200 \<and> True = cacheFanState hum60
   \<and> hk2mr (quantise 80) = cacheFanSpeed hum60 \<and> cacheFanSpeed hum60 \<in> {0, 1, 2}
   \<and> internalStateUpdate True (Throws TimeoutError) bulbOn = (Inr (), bulbOn)
   \<and> internalBrightnessUpdate 50 envOk bulbOn = (Inr (), bulbOn)
   \<and> internalColourUpdate (\<lambda>_ _. (0, 0, 0)) 0 envOk bulbOn = (Inr (), bulbOn)
   \<and> internalCTUpdate 200 envOk bulbOn = (Inr (), bulbOn)
   \<and> internalFanStateUpdate True (Returns ()) hum60 = (Inr (), hum60)
   \<and> internalFanSpeedUpdate 80 (Returns ()) hum60 = (Inr (), hum60)
   \<and> internalFanSpeedUpdate 100 (Returns ()) hum60 = (Inr (), hum60)"
  using write_equal_to_cache_is_noop [of True bulbOn "Throws TimeoutError" 50 envOk 0
      "\<lambda>_ _. (0, 0, 0)" 200 True hum60 "Returns ()" 80 "Returns ()"]
  by (simp add: concrete hk2mr_def quantise_def mr2hk_def)

subsection \<open>Failed writes\<close>









text \<open>
  The colour-temperature handler does behave like the others once its send is reached,
  but that needs the string \<open>'on'\<close> in the power cache, which no assignment in the
  class stores.
\<close>

lemma ct_failure:
  assumes "cacheState s = JStr ''on''" "cacheMired s \<noteq> m" "checkResponse out = Inl err"
  shows "case sendCT m out s of (r, s') \<Rightarrow>
           r = Inl (HapStatusError (- 70402)) \<and> cacheMired s' = cacheMired s \<and>
           timers s' = timers s @ [(2000, RevertColorTemperature)] \<and>
           hubUpdates s' = hubUpdates s \<and>
           hubValue (fireBulb RevertColorTemperature s') ColorTemperature
             = JNum (cacheMired s)"
  using assms by (auto simp: sendCT_def Let_def effects)




subsection \<open>Merging a poll or a push\<close>

text \<open>
  The humidifier's merge compares the reported mode with \<open>cacheFanSpeed\<close> and stores it
  there: applying a digest a second time changes nothing.
\<close>

lemma applyUpdate_idempotent: "applyUpdate data (applyUpdate data s) = applyUpdate data s"
proof (cases "spray data")
  case None
  then show ?thesis by (simp add: applyUpdate_def)
next
  case (Some xs)
  show ?thesis
  proof (cases xs)
    case Nil
    with Some show ?thesis by (simp add: applyUpdate_def)
  next
    case (Cons x ys)
    show ?thesis
    proof (cases x)
      case None
      with Some Cons show ?thesis by (simp add: applyUpdate_def)
    next
      case (Some newSpeed)
      have "cacheFanSpeed (applyUpdate data s) = newSpeed"
        using \<open>spray data = Some xs\<close> Cons Some
        by (simp add: applyUpdate_def Let_def effects)
      then show ?thesis
        using \<open>spray data = Some xs\<close> Cons Some
        by (simp add: applyUpdate_def [of data "applyUpdate data s"])
    qed
  qed
qed

text \<open>
  C4 on the lightbulb. The bulb is on at brightness 50 and the device reports exactly
  that. The first poll pushes the unchanged brightness to the hub and leaves the number
  50 in the power cache; the second poll of the same digest pushes the power state and
  the brightness again.
\<close>

theorem poll_of_same_digest_emits_updates_again:
  "cacheState bulbOn = JBool True \<and> cacheBright bulbOn = 50
   \<and> hubUpdates (pollOn50 bulbOn) = [(Brightness, JNum 50)]
   \<and> cacheState (pollOn50 bulbOn) = JNum 50
   \<and> hubUpdates (pollOn50 (pollOn50 bulbOn))
       = hubUpdates (pollOn50 bulbOn) @ [(On, JBool True), (Brightness, JNum 50)]"
  by (simp add: concrete requestDeviceUpdate_def mergeDigest_def mergeState_def
      mergeLuminance_def Let_def effects)

subsection \<open>Colour temperature\<close>

lemma sendCT_boolean_power_cache:
  "cacheState s = JBool b \<Longrightarrow> sendCT m out s = (Inr (), s\<lparr>updateInProgress := True\<rparr>)"
  by (simp add: sendCT_def Let_def)

text \<open>
  C5 on the code. The bulb is on (its power cache holds \<open>true\<close>), its cache holds 200
  mired, the write asks for 300 mired and passes the token check: the handler returns
  without an error and without sending anything.
\<close>

theorem ct_write_to_bulb_that_is_on_sends_nothing:
  "cacheState bulbOn = JBool True \<and> cacheMired bulbOn \<noteq> 300
   \<and> fst (internalCTUpdate 300 envOk bulbOn) = Inr ()
   \<and> sent (snd (internalCTUpdate 300 envOk bulbOn)) = []
   \<and> cacheMired (snd (internalCTUpdate 300 envOk bulbOn)) = 200"
  by (simp add: concrete internalCTUpdate_def sendCT_def Let_def)

subsection \<open>Conversions\<close>

lemma deviceTemp2mired_int: "deviceTemp2mired x = (5005 - 36 * x) div 10"
proof -
  have "360 - real_of_int x / 100 * 360 + 140 + 1 / 2
          = real_of_int (5005 - 36 * x) / real_of_int 10"
    by (simp add: field_simps)
  then show ?thesis
    unfolding deviceTemp2mired_def Let_def js_round_def
    by (simp only: floor_divide_of_int_eq)
qed

lemma mired2deviceTemp_int:
  "mired2deviceTemp m = (let t = (2509 - 5 * m) div 18 in if t = 0 then 1 else t)"
proof -
  have "(360 - (real_of_int m - 140)) / 360 * 100 + 1 / 2
          = real_of_int (2509 - 5 * m) / real_of_int 18"
    by (simp add: field_simps)
  then show ?thesis
    unfolding mired2deviceTemp_def Let_def js_round_def
    by (simp only: floor_divide_of_int_eq)
qed

text \<open>
  C6. For every device temperature \<open>x\<close> from 0 to 100, converting to mired and back
  gives \<open>x\<close>, except at \<open>x = 0\<close>, where the computed 0 is coerced to 1.
\<close>

theorem temperature_round_trip:
  "0 \<le> x \<Longrightarrow> x \<le> 100 \<Longrightarrow>
     mired2deviceTemp (deviceTemp2mired x) = (if x = 0 then 1 else x)"
proof -
  assume a: "0 \<le> x" "x \<le> 100"
  define m where "m = (5005 - 36 * x) div 10"
  have m1: "10 * m \<le> 5005 - 36 * x" and m2: "5005 - 36 * x < 10 * m + 10"
    unfolding m_def by presburger+
  define t where "t = (2509 - 5 * m) div 18"
  have t1: "18 * t \<le> 2509 - 5 * m" and t2: "2509 - 5 * m < 18 * t + 18"
    unfolding t_def by presburger+
  have "t = x" using m1 m2 t1 t2 a by auto
  then show ?thesis
    unfolding mired2deviceTemp_int deviceTemp2mired_int Let_def
      m_def [symmetric] t_def [symmetric]
    by auto
qed

text \<open>C6 at the device temperatures 40 and 0.\<close>

theorem temperature_round_trip_witness:
  "(0::int) \<le> 40 \<and> (40::int) \<le> 100 \<and> mired2deviceTemp (deviceTemp2mired 40) = 40
   \<and> mired2deviceTemp (deviceTemp2mired 0) = 1"
  using temperature_round_trip [of 40] temperature_round_trip [of 0] by simp

lemma js_shl_int: "js_shl a n = signed_take_bit 31 (push_bit n a)"
  unfolding js_shl_def by (simp add: sint_sbintrunc' push_bit_of_int)

lemma js_and_int: "js_and a b = signed_take_bit 31 (a AND b)"
  unfolding js_and_def by (simp add: sint_sbintrunc' word_wi_log_defs)

lemma js_sar_int: "js_sar a n = drop_bit n (signed_take_bit 31 a)"
  unfolding js_sar_def by (simp add: sint_sbintrunc' sint_signed_drop_bit_eq)

lemma stb31_id: "0 \<le> k \<Longrightarrow> k < 2147483648 \<Longrightarrow> signed_take_bit 31 k = (k::int)"
  by (rule signed_take_bit_int_eq_self) simp_all

lemma and_const_bounds: "0 \<le> c \<Longrightarrow> 0 \<le> (x::int) AND c \<and> x AND c \<le> c"
  by (simp add: AND_upper2)

lemma and_255: "(x::int) AND 255 = x mod 256"
proof -
  have "x AND mask 8 = take_bit 8 x" by (simp only: take_bit_eq_mask)
  then show ?thesis by (simp add: take_bit_eq_mod mask_eq_exp_minus_1)
qed

lemma js_and_const: "0 \<le> c \<Longrightarrow> c < 2147483648 \<Longrightarrow> js_and x c = x AND c"
  using and_const_bounds [of c x] by (simp add: js_and_int stb31_id)

lemma js_shl_small: "0 \<le> a \<Longrightarrow> a * 2 ^ n < 2147483648 \<Longrightarrow> js_shl a n = a * 2 ^ n"
  by (simp add: js_shl_int push_bit_eq_mult stb31_id)

lemma pack_rgb_arith:
  assumes "0 \<le> r" "r \<le> 255" "0 \<le> g" "g \<le> 255" "0 \<le> b" "b \<le> 255"
  shows "pack_rgb r g b = r * 65536 + g * 256 + b"
  using assms by (simp add: pack_rgb_def js_shl_small)

lemma unpack_rgb_arith:
  "unpack_rgb x = (x div 65536 mod 256, x div 256 mod 256, x mod 256)"
proof -
  have r: "js_sar (js_and x 0xff0000) 16 = x div 65536 mod 256"
  proof -
    have "drop_bit 16 (x AND 0xff0000) = drop_bit 16 x AND drop_bit 16 (0xff0000 :: int)"
      by (simp only: drop_bit_and)
    also have "\<dots> = drop_bit 16 x AND 255" by (simp add: drop_bit_eq_div)
    also have "\<dots> = x div 65536 mod 256" by (simp add: and_255 drop_bit_eq_div)
    finally show ?thesis
      using and_const_bounds [of "0xff0000" x]
      by (simp add: js_sar_int js_and_const stb31_id)
  qed
  have g: "js_sar (js_and x 0x00ff00) 8 = x div 256 mod 256"
  proof -
    have "drop_bit 8 (x AND 0x00ff00) = drop_bit 8 x AND drop_bit 8 (0x00ff00 :: int)"
      by (simp only: drop_bit_and)
    also have "\<dots> = drop_bit 8 x AND 255" by (simp add: drop_bit_eq_div)
    also have "\<dots> = x div 256 mod 256" by (simp add: and_255 drop_bit_eq_div)
    finally show ?thesis
      using and_const_bounds [of "0x00ff00" x]
      by (simp add: js_sar_int js_and_const stb31_id)
  qed
  have b: "js_and x 0x0000ff = x mod 256"
    by (simp add: js_and_const and_255)
  show ?thesis by (simp add: unpack_rgb_def r g b)
qed

text \<open>
  C7. For red, green and blue each from 0 to 255, packing with the two shifts and
  unpacking with the three masks gives the triple back.
\<close>

theorem rgb_round_trip:
  assumes "0 \<le> r" "r \<le> 255" "0 \<le> g" "g \<le> 255" "0 \<le> b" "b \<le> 255"
  shows "unpack_rgb (pack_rgb r g b) = (r, g, b)"
proof -
  have "(r * 65536 + g * 256 + b) div 65536 = r" using assms by linarith
  moreover have "(r * 65536 + g * 256 + b) div 256 = r * 256 + g" using assms by linarith
  moreover have "(r * 256 + g) mod 256 = g" using assms by simp
  moreover have "(r * 65536 + g * 256 + b) mod 256 = b"
  proof -
    have "r * 65536 + g * 256 + b = b + (r * 256 + g) * 256" by simp
    then have "(r * 65536 + g * 256 + b) mod 256 = b mod 256"
      by (simp only: mod_mult_self1)
    then show ?thesis using assms by simp
  qed
  ultimately show ?thesis
    using assms by (simp add: pack_rgb_arith [OF assms] unpack_rgb_arith)
qed

text \<open>C7 at the triple (255, 128, 7), packed as 16744455.\<close>

theorem rgb_round_trip_witness:
  "(0::int) \<le> 255 \<and> (0::int) \<le> 128 \<and> (128::int) \<le> 255 \<and> (0::int) \<le> 7 \<and> (7::int) \<le> 255
   \<and> unpack_rgb (pack_rgb 255 128 7) = (255, 128, 7)"
  using rgb_round_trip [of 255 128 7] by simp

subsection \<open>Fan speed and fan power\<close>

text \<open>
  C8, as stated, fails in its last part. A fan-speed write of 60 to a humidifier in
  continuous mode, the hub showing the requested 60, is accepted by the device: the
  handler makes no hub update and installs no timer, and the hub-visible rotation speed
  is still 60, not 50.
\<close>

theorem fan_speed_60_leaves_hub_at_60:
  "hubValue hum60 RotationSpeed = JNum 60 \<and> cacheFanSpeed hum60 \<noteq> 2
   \<and> fst (internalFanSpeedUpdate 60 (Returns ()) hum60) = Inr ()
   \<and> hubValue (snd (internalFanSpeedUpdate 60 (Returns ()) hum60)) RotationSpeed = JNum 60
   \<and> hubValue (snd (internalFanSpeedUpdate 60 (Returns ()) hum60)) RotationSpeed \<noteq> JNum 50
   \<and> hubUpdates (snd (internalFanSpeedUpdate 60 (Returns ()) hum60)) = []
   \<and> timers (snd (internalFanSpeedUpdate 60 (Returns ()) hum60)) = []"
  by (simp add: concrete internalFanSpeedUpdate_def hk2mr_def quantise_def Let_def effects)

text \<open>
  C8, amended. A fan-speed write from 1 to 75 (60 is one) with a cached mode other than
  2 is quantised to 50, mapped to spray mode 2 and sent once; when the device accepts
  it the cached fan speed becomes 2, and the handler leaves the hub-visible state as it
  was (no update, no timer). Hub speed 0 maps to mode 0, 1 to 75 to mode 2, 76 to 100
  to mode 1; the inverse map gives 0 for mode 0, 100 for mode 1 and 50 otherwise.
\<close>

theorem fan_speed_write_quantised:
  "(1 \<le> v \<and> v \<le> 75 \<and> cacheFanSpeed t \<noteq> 2 \<longrightarrow>
      quantise v = 50 \<and> hk2mr (quantise v) = 2 \<and>
      (case internalFanSpeedUpdate v (Returns ()) t of (r, t') \<Rightarrow>
         r = Inr () \<and>
         sent t' = sent t @ [Command ''Appliance.Control.Spray'' (Spray 2 0)] \<and>
         cacheFanSpeed t' = 2 \<and> hubValue t' = hubValue t \<and>
         hubUpdates t' = hubUpdates t \<and> timers t' = timers t))
   \<and> hk2mr 0 = 0
   \<and> (1 \<le> w \<and> w \<le> 75 \<longrightarrow> hk2mr w = 2)
   \<and> (76 \<le> w \<and> w \<le> 100 \<longrightarrow> hk2mr w = 1)
   \<and> mr2hk 0 = 0 \<and> mr2hk 1 = 100 \<and> mr2hk 2 = 50 \<and> mr2hk k \<in> {0, 50, 100}"
  by (auto simp: internalFanSpeedUpdate_def hk2mr_def mr2hk_def quantise_def Let_def effects)

text \<open>C8, amended, at the write of 60 in continuous mode and at the speeds 60 and 80.\<close>

theorem fan_speed_write_quantised_witness:
  "(1::int) \<le> 60 \<and> (60::int) \<le> 75 \<and> cacheFanSpeed hum60 \<noteq> 2
   \<and> quantise 60 = 50
   \<and> sent (snd (internalFanSpeedUpdate 60 (Returns ()) hum60))
       = [Command ''Appliance.Control.Spray'' (Spray 2 0)]
   \<and> cacheFanSpeed (snd (internalFanSpeedUpdate 60 (Returns ()) hum60)) = 2
   \<and> hk2mr 60 = 2 \<and> (76::int) \<le> 80 \<and> (80::int) \<le> 100 \<and> hk2mr 80 = 1"
  using fan_speed_write_quantised [of 60 hum60 60 0]
    fan_speed_write_quantised [of 60 hum60 80 0]
  by (simp add: concrete split: prod.splits)

text \<open>
  C10. A fan power write that passes the no-op check sends exactly one spray command,
  whatever the send then does. For a power-on write its mode is the larger of the
  cached fan speed and 1: never 0, and the cached speed itself when that is at least 1.
  For a power-off write its mode is 0.
\<close>

theorem fan_power_on_resumes_running_mode:
  "value \<noteq> cacheFanState s \<Longrightarrow>
     sent (snd (internalFanStateUpdate value out s)) =
       sent s @ [Command ''Appliance.Control.Spray''
                   (Spray (if value then max (cacheFanSpeed s) 1 else 0) 0)]
     \<and> ((if value then max (cacheFanSpeed s) 1 else 0) = 0 \<longleftrightarrow> \<not> value)
     \<and> (value \<and> 1 \<le> cacheFanSpeed s \<longrightarrow> max (cacheFanSpeed s) 1 = cacheFanSpeed s)"
  by (cases out) (auto simp: internalFanStateUpdate_def Let_def effects)

text \<open>
  C10 at a power-on write to a humidifier that is off with cached mode 2, and at a
  power-off write to one that is on.
\<close>

theorem fan_power_on_resumes_running_mode_witness:
  "True \<noteq> cacheFanState humOffMode2 \<and> 1 \<le> cacheFanSpeed humOffMode2
   \<and> sent (snd (internalFanStateUpdate True (Returns ()) humOffMode2))
       = [Command ''Appliance.Control.Spray'' (Spray 2 0)]
   \<and> False \<noteq> cacheFanState hum60
   \<and> sent (snd (internalFanStateUpdate False (Returns ()) hum60))
       = [Command ''Appliance.Control.Spray'' (Spray 0 0)]"
  using fan_power_on_resumes_running_mode [of True humOffMode2 "Returns ()"]
    fan_power_on_resumes_running_mode [of False hum60 "Returns ()"]
  by (simp add: concrete)

subsection \<open>Scheduling of polls\<close>

lemma lightbulbStartup_polls:
  "lightbulbStartup rate =
     (if 0 < rate then [RequestDeviceUpdate, SetInterval (rate * 1000)]
      else [RequestDeviceUpdate])"
  by (simp add: lightbulbStartup_def)

text \<open>
  C9 on the humidifier. With a local connection and a configured refresh rate of 0 the
  constructor still installs the interval timer, with a period of 0 ms; the lightbulb's
  constructor installs none for the same rate.
\<close>

theorem humidifier_zero_rate_installs_timer:
  "humidifierStartup ''local'' \<lparr>refreshRate = Some 0, cloudRefreshRate = None\<rparr> 300 5
     = [RequestUpdate True, SetInterval 0]
   \<and> lightbulbStartup 0 = [RequestDeviceUpdate]"
  by (simp add: humidifierStartup_def humidifierPollInterval_def lightbulbStartup_def)

end
